theory Spec2Isabelle
  imports Main "HOL-Library.Sublist" "HOL-Library.List_Lexorder" "HOL-Library.Char_ord"
begin

section \<open>EPUB splitter: a shallow embedding of \<open>epub_splitter.py\<close>\<close>

text \<open>
  The script reads an EPUB container, turns every \<open>.html\<close>/\<open>.xhtml\<close> member into a
  chapter record, looks for a cover image, cuts the chapter list into batches and writes
  one new container per batch.

  Conventions of the model.
  \<^item> A Python \<open>str\<close> is a \<open>string\<close>; a \<open>char\<close> stands for the code point of the same
    number (U+0000 to U+00FF). Within that range \<open>\d\<close> matches the ten ASCII digits, and
    \<open>\s\<close>, \<open>str.strip()\<close> treat 0x09-0x0D, 0x1C-0x20, 0x85 and 0xA0 as whitespace.
  \<^item> \<open>bytes\<close> are a \<open>string\<close> as well.
  \<^item> \<open>None\<close> is \<open>None\<close>; a Python truth test on an optional string is \<open>truthy\<close>.
  \<^item> The source container is its member names in listing order and the function that
    reads a member by name. Opening it and writing the outputs are taken to succeed;
    the markup parser (\<open>BeautifulSoup(...).decode_contents()\<close>) is a parameter.
  \<^item> A written container is the list of its members in the order of the
    \<open>writestr\<close> calls; the run returns the list of containers written, in order, and the
    exception that ended it, if any.
\<close>

subsection \<open>Python string operations\<close>

definition whitespace :: "char list" where
  "whitespace =
     [CHR 0x09, CHR 0x0A, CHR 0x0B, CHR 0x0C, CHR 0x0D, CHR 0x1C, CHR 0x1D, CHR 0x1E, CHR 0x1F,
      CHR 0x20, CHR 0x85, CHR 0xA0]"

definition isspace :: "char \<Rightarrow> bool" where
  "isspace c = (c \<in> set whitespace)"


text \<open>\<open>str.lower()\<close> on one character: A-Z, and the upper-case letters of Latin-1.\<close>

definition lower_char :: "char \<Rightarrow> char" where
  "lower_char c = (let n = (of_char c :: nat) in
     if (65 \<le> n \<and> n \<le> 90) \<or> (192 \<le> n \<and> n \<le> 222 \<and> n \<noteq> 215)
     then char_of (n + 32) else c)"

definition lower :: "string \<Rightarrow> string" where
  "lower s = map lower_char s"

text \<open>\<open>s.endswith(suf)\<close> and \<open>sub in s\<close>.\<close>

definition endswith :: "string \<Rightarrow> string \<Rightarrow> bool" where
  "endswith s suf = suffix suf s"

definition contains :: "string \<Rightarrow> string \<Rightarrow> bool" where
  "contains s sub = sublist sub s"

text \<open>\<open>s.strip()\<close>.\<close>

definition strip :: "string \<Rightarrow> string" where
  "strip s = rev (dropWhile isspace (rev (dropWhile isspace s)))"


text \<open>\<open>s.split(sep)\<close> for a single character \<open>sep\<close>: never the empty list.\<close>

fun split :: "char \<Rightarrow> string \<Rightarrow> string list" where
  "split sep [] = [[]]"
| "split sep (c # cs) =
     (if c = sep then [] # split sep cs
      else (case split sep cs of
              [] \<Rightarrow> [[c]]
            | w # ws \<Rightarrow> (c # w) # ws))"



text \<open>\<open>re.sub(r'\s+', '_', s)\<close>: every maximal run of whitespace becomes one underscore.\<close>

function sub_whitespace :: "string \<Rightarrow> string" where
  "sub_whitespace [] = []"
| "sub_whitespace (c # cs) =
     (if isspace c then CHR ''_'' # sub_whitespace (dropWhile isspace cs)
      else c # sub_whitespace cs)"
  by pat_completeness auto
termination
  by (relation "measure length") (auto simp: le_imp_less_Suc length_dropWhile_le)

declare sub_whitespace.simps [simp del]

text \<open>\<open>str(n)\<close> for an integer: decimal digits, a minus sign for a negative number.\<close>

definition digit_char :: "nat \<Rightarrow> char" where
  "digit_char d = char_of (48 + d)"

function str_nat :: "nat \<Rightarrow> string" where
  "str_nat n = (if n < 10 then [digit_char n] else str_nat (n div 10) @ [digit_char (n mod 10)])"
  by pat_completeness auto
termination
  by (relation "measure id") auto

declare str_nat.simps [simp del]

definition str_int :: "int \<Rightarrow> string" where
  "str_int i = (if i < 0 then CHR ''-'' # str_nat (nat (- i)) else str_nat (nat i))"

text \<open>The truth value of an optional string: \<open>None\<close> and the empty string are false.\<close>

fun truthy :: "string option \<Rightarrow> bool" where
  "truthy None = False"
| "truthy (Some s) = (s \<noteq> [])"

text \<open>\<open>xs[lo:hi]\<close>: a negative bound counts from the end, and both are clamped.\<close>

definition slice_bound :: "nat \<Rightarrow> int \<Rightarrow> nat" where
  "slice_bound n i = (if i < 0 then nat (int n + i) else min n (nat i))"

definition py_slice :: "'a list \<Rightarrow> int \<Rightarrow> int \<Rightarrow> 'a list" where
  "py_slice xs lo hi =
     (let l = slice_bound (length xs) lo; h = slice_bound (length xs) hi
      in take (h - l) (drop l xs))"

text \<open>An optional string inside an f-string: \<open>None\<close> prints as the word \<open>None\<close>.\<close>

fun fmt :: "string option \<Rightarrow> string" where
  "fmt None = ''None''"
| "fmt (Some s) = s"

subsection \<open>Data\<close>

text \<open>The dictionaries appended to \<open>chapters\<close>.\<close>

record chapter_rec =
  file_name :: string
  content :: string
  title :: string

text \<open>The opened source container \<open>z\<close>: \<open>z.namelist()\<close> and \<open>z.read(name)\<close>.\<close>

record archive =
  namelist :: "string list"
  read :: "string \<Rightarrow> string"

text \<open>The three module-level variables the cover search assigns.\<close>

record cover =
  cover_image :: "string option"
  cover_image_name :: "string option"
  cover_media_type :: "string option"

text \<open>The parsed command line, \<open>config\<close>.\<close>

record config =
  cfg_epub :: string
  cfg_splitsize :: int
  cfg_outdir :: "string option"
  cfg_title :: "string option"
  cfg_singlerange :: "(int \<times> int) option"

text \<open>The two \<open>ValueError\<close>s the script can raise after the container has been read:
  the one of \<open>range()\<close> for a step of zero (a batch size of zero, the specification's
  \<open>ConfigError\<close>), and the one raised for a bad explicit range (its \<open>RangeError\<close>), which
  carries the numbers of its message.\<close>

datatype error =
  RangeStepZero
| InvalidRange int int nat

datatype compression = ZIP_STORED | ZIP_DEFLATED

text \<open>One \<open>writestr\<close> call: the member's name, its data and how it is stored.\<close>

record member =
  arcname :: string
  data :: string
  compress_type :: compression

text \<open>One container written to disk: its path and its members in writing order.\<close>

record epub_out =
  out_path :: string
  out_members :: "member list"

subsection \<open>Paths\<close>

definition is_sep :: "char \<Rightarrow> bool" where
  "is_sep c = (c = CHR ''/'' \<or> c = CHR 0x5C)"

text \<open>\<open>get_base_name\<close> drops a final \<open>.epub\<close> (in any case) and scans from the end for
  the last slash or backslash: it returns what follows it, or the whole string if there
  is none. \<open>get_base_dir\<close> returns the string up to and including that separator, or
  \<open>./\<close> if there is none.\<close>

definition get_base_name :: "string \<Rightarrow> string" where
  "get_base_name input_path =
     (let p = (if endswith (lower input_path) ''.epub'' then py_slice input_path 0 (- 5)
               else input_path)
      in rev (takeWhile (\<lambda>c. \<not> is_sep c) (rev p)))"

definition get_base_dir :: "string \<Rightarrow> string" where
  "get_base_dir input_path =
     (if \<exists>c \<in> set input_path. is_sep c
      then rev (dropWhile (\<lambda>c. \<not> is_sep c) (rev input_path))
      else ''./'')"

text \<open>The output directory: the one given, closed by a slash if it does not end in a
  separator, or else the directory of the source file.\<close>

definition output_dir :: "config \<Rightarrow> string" where
  "output_dir cfg =
     (if truthy (cfg_outdir cfg)
      then (let d = fmt (cfg_outdir cfg)
            in if endswith d ''/'' \<or> endswith d [CHR 0x5C] then d else d @ ''/'')
      else get_base_dir (cfg_epub cfg))"

subsection \<open>Reading the chapters and the cover\<close>

text \<open>The part of a member name after its last slash: \<open>name.split('/')[-1]\<close>.\<close>

definition base_file :: "string \<Rightarrow> string" where
  "base_file fname = last (split CHR ''/'' fname)"





definition no_cover :: cover where
  "no_cover = \<lparr>cover_image = None, cover_image_name = None, cover_media_type = None\<rparr>"

definition is_cover_name :: "string \<Rightarrow> bool" where
  "is_cover_name fname =
     (let lower_name = lower fname
      in contains lower_name ''cover'' \<and>
         (endswith lower_name ''.jpg'' \<or> endswith lower_name ''.jpeg'' \<or>
          endswith lower_name ''.png''))"

definition media_type_of :: "string \<Rightarrow> string option" where
  "media_type_of name =
     (if endswith name ''.jpg'' \<or> endswith name ''.jpeg'' then Some ''image/jpeg''
      else if endswith name ''.png'' then Some ''image/png''
      else None)"

text \<open>The search loop over \<open>files\<close>, left at the first hit.\<close>

fun find_cover :: "archive \<Rightarrow> string list \<Rightarrow> cover" where
  "find_cover z [] = no_cover"
| "find_cover z (fname # files) =
     (if is_cover_name fname
      then \<lparr>cover_image = Some (read z fname),
            cover_image_name = Some (base_file fname),
            cover_media_type = media_type_of (base_file fname)\<rparr>
      else find_cover z files)"

definition locate_cover :: "archive \<Rightarrow> cover" where
  "locate_cover z = find_cover z (namelist z)"

subsection \<open>Batches\<close>

text \<open>\<open>range(start, stop, step)\<close> as a list: it raises for a step of zero; otherwise it
  holds \<open>start + k * step\<close> for the \<open>k\<close> below its length.\<close>

definition py_range :: "int \<Rightarrow> int \<Rightarrow> int \<Rightarrow> error + int list" where
  "py_range start stop step =
     (if step = 0 then Inl RangeStepZero
      else if step > 0
      then Inr (map (\<lambda>k. start + int k * step) [0 ..< nat ((stop - start + step - 1) div step)])
      else Inr (map (\<lambda>k. start + int k * step)
                  [0 ..< nat ((start - stop - step - 1) div (- step))]))"

definition chunks :: "'a list \<Rightarrow> int \<Rightarrow> error + 'a list list" where
  "chunks lst n =
     (case py_range 0 (int (length lst)) n of
        Inl e \<Rightarrow> Inl e
      | Inr starts \<Rightarrow> Inr (map (\<lambda>i. py_slice lst i (i + n)) starts))"

definition chapter_batches :: "config \<Rightarrow> chapter_rec list \<Rightarrow> error + chapter_rec list list" where
  "chapter_batches cfg chapters =
     (case cfg_singlerange cfg of
        Some (start, stop) \<Rightarrow>
          if start < 1 \<or> stop > int (length chapters) \<or> start > stop
          then Inl (InvalidRange start stop (length chapters))
          else Inr [py_slice chapters (start - 1) stop]
      | None \<Rightarrow> chunks chapters (cfg_splitsize cfg))"

subsection \<open>Names of one output\<close>

definition start_chapter :: "config \<Rightarrow> nat \<Rightarrow> int" where
  "start_chapter cfg i =
     (case cfg_singlerange cfg of
        Some (start, stop) \<Rightarrow> start
      | None \<Rightarrow> (int i - 1) * cfg_splitsize cfg + 1)"

definition end_chapter :: "config \<Rightarrow> nat \<Rightarrow> chapter_rec list \<Rightarrow> int" where
  "end_chapter cfg i batch =
     (case cfg_singlerange cfg of
        Some (start, stop) \<Rightarrow> stop
      | None \<Rightarrow> ((int i - 1) * cfg_splitsize cfg + 1) + int (length batch) - 1)"

definition part_title :: "config \<Rightarrow> nat \<Rightarrow> chapter_rec list \<Rightarrow> string" where
  "part_title cfg i batch =
     (if truthy (cfg_title cfg) then fmt (cfg_title cfg)
      else get_base_name (cfg_epub cfg) @ '' '' @ str_int (start_chapter cfg i) @ ''-'' @
           str_int (end_chapter cfg i batch))"

definition output_name :: "config \<Rightarrow> nat \<Rightarrow> chapter_rec list \<Rightarrow> string" where
  "output_name cfg i batch =
     (if truthy (cfg_title cfg)
      then output_dir cfg @ sub_whitespace (strip (fmt (cfg_title cfg))) @ ''.epub''
      else output_dir cfg @ get_base_name (cfg_epub cfg) @ ''_'' @
           str_int (start_chapter cfg i) @ ''_'' @ str_int (end_chapter cfg i batch) @ ''.epub'')"

subsection \<open>The documents of one output\<close>

definition container_xml :: string where
  \<open>container_xml =
     ''<?xml version="1.0"?>\<newline>'' @
     ''<container version="1.0"\<newline>'' @
     ''  xmlns="urn:oasis:names:tc:opendocument:xmlns:container">\<newline>'' @
     ''   <rootfiles>\<newline>'' @
     ''      <rootfile full-path="content.opf"\<newline>'' @
     ''         media-type="application/oebps-package+xml"/>\<newline>'' @
     ''   </rootfiles>\<newline>'' @
     ''</container>''\<close>

definition css_content :: string where
  \<open>css_content =
     ''\<newline>'' @
     ''body {\<newline>'' @
     ''  text-align: justify;\<newline>'' @
     ''}\<newline>'' @
     ''\<newline>'' @
     ''h1 {\<newline>'' @
     ''    font-size: 160%;\<newline>'' @
     ''    padding: 1em;   \<newline>'' @
     ''}\<newline>'' @
     ''\<newline>'' @
     ''p {\<newline>'' @
     ''  text-indent: 2em;\<newline>'' @
     ''  margin: 0 0 1em 0;\<newline>'' @
     ''}\<newline>''\<close>

definition manifest_cover_item :: "cover \<Rightarrow> string" where
  \<open>manifest_cover_item cv =
     ''<item id="cover" href="'' @ fmt (cover_image_name cv) @ ''" media-type="'' @
     fmt (cover_media_type cv) @ ''" properties="cover-image"/>\<newline>''\<close>

definition manifest_css_item :: string where
  \<open>manifest_css_item = ''<item id="css" href="styles.css" media-type="text/css"/>\<newline>''\<close>

definition manifest_ncx_item :: string where
  \<open>manifest_ncx_item = ''<item id="ncx" href="toc.ncx" media-type="application/x-dtbncx+xml"/>''\<close>

definition manifest_chapter_item :: "nat \<Rightarrow> chapter_rec \<Rightarrow> string" where
  \<open>manifest_chapter_item idx ch =
     ''<item id="chap'' @ str_nat idx @ ''" href="'' @ file_name ch @
     ''" media-type="application/xhtml+xml"/>\<newline>''\<close>

definition spine_itemref :: "nat \<Rightarrow> string" where
  \<open>spine_itemref idx = ''<itemref idref="chap'' @ str_nat idx @ ''"/>\<newline>''\<close>

definition chapter_html :: "chapter_rec \<Rightarrow> string" where
  \<open>chapter_html ch =
     ''<?xml version="1.0" encoding="UTF-8"?>\<newline>'' @
     ''<html xmlns="http://www.w3.org/1999/xhtml">\<newline>'' @
     ''<head>\<newline>'' @
     ''  <title>'' @ title ch @ ''</title>\<newline>'' @
     ''  <link rel="stylesheet" type="text/css" href="styles.css"/>\<newline>'' @
     ''</head>\<newline>'' @
     ''<body>\<newline>'' @
     content ch @ ''\<newline>'' @
     ''</body>\<newline>'' @
     ''</html>\<newline>''\<close>

definition metadata :: "cover \<Rightarrow> string \<Rightarrow> string \<Rightarrow> nat \<Rightarrow> string" where
  \<open>metadata cv base_name ptitle i =
     (''\<newline>'' @
      ''  <metadata xmlns:dc="http://purl.org/dc/elements/1.1/">\<newline>'' @
      ''    <dc:title>'' @ ptitle @ ''</dc:title>\<newline>'' @
      ''    <dc:language>en</dc:language>\<newline>'' @
      ''    <dc:identifier id="BookId">'' @ base_name @ ''_part_'' @ str_nat i @
      ''</dc:identifier>\<newline>'' @
      ''  '') @
     (if truthy (cover_image_name cv) then ''<meta name="cover" content="cover"/>'' else []) @
     (''\<newline>'' @ ''  </metadata>'')\<close>

definition content_opf :: "string \<Rightarrow> string \<Rightarrow> string \<Rightarrow> string" where
  \<open>content_opf meta manifest_items spine_items =
     ''<?xml version="1.0" encoding="UTF-8"?>\<newline>'' @
     ''<package xmlns="http://www.idpf.org/2007/opf" unique-identifier="BookId" version="2.0">\<newline>'' @
     meta @ ''\<newline>'' @
     ''  <manifest>\<newline>'' @
     ''    '' @ manifest_items @ ''\<newline>'' @
     ''  </manifest>\<newline>'' @
     ''  <spine toc="ncx">\<newline>'' @
     ''    '' @ spine_items @ ''\<newline>'' @
     ''  </spine>\<newline>'' @
     ''</package>''\<close>

definition nav_cover_point :: "cover \<Rightarrow> string" where
  \<open>nav_cover_point cv =
     ''\<newline>'' @
     ''    <navPoint id="navPoint-0" playOrder="0">\<newline>'' @
     ''      <navLabel><text>Cover</text></navLabel>\<newline>'' @
     ''      <content src="'' @ fmt (cover_image_name cv) @ ''"/>\<newline>'' @
     ''    </navPoint>''\<close>

definition nav_point :: "nat \<Rightarrow> chapter_rec \<Rightarrow> string" where
  \<open>nav_point nav_index ch =
     ''\<newline>'' @
     ''    <navPoint id="navPoint-'' @ str_nat nav_index @ ''" playOrder="'' @
     str_nat nav_index @ ''">\<newline>'' @
     ''      <navLabel><text>'' @ title ch @ ''</text></navLabel>\<newline>'' @
     ''      <content src="'' @ file_name ch @ ''"/>\<newline>'' @
     ''    </navPoint>''\<close>

definition toc_ncx :: "string \<Rightarrow> string \<Rightarrow> nat \<Rightarrow> string \<Rightarrow> string" where
  \<open>toc_ncx base_name ptitle i nav_points =
     ''<?xml version="1.0" encoding="UTF-8"?>\<newline>'' @
     ''<ncx xmlns="http://www.daisy.org/z3986/2005/ncx/" version="2005-1">\<newline>'' @
     ''  <head>\<newline>'' @
     ''    <meta name="dtb:uid" content="'' @ base_name @ ''_part_'' @ str_nat i @
     ''"/>\<newline>'' @
     ''    <meta name="dtb:depth" content="1"/>\<newline>'' @
     ''    <meta name="dtb:totalPageCount" content="0"/>\<newline>'' @
     ''    <meta name="dtb:maxPageNumber" content="0"/>\<newline>'' @
     ''  </head>\<newline>'' @
     ''  <docTitle><text>'' @ ptitle @ ''</text></docTitle>\<newline>'' @
     ''  <navMap>\<newline>'' @
     ''    '' @ nav_points @ ''\<newline>'' @
     ''  </navMap>\<newline>'' @
     ''</ncx>''\<close>

subsection \<open>Writing one output\<close>

text \<open>\<open>outzip.writestr(name, data)\<close>: the container was opened with the default
  compression, \<open>ZIP_STORED\<close>, which a member without a \<open>compress_type\<close> of its own takes.\<close>

definition writestr :: "string \<Rightarrow> string \<Rightarrow> compression option \<Rightarrow> member" where
  "writestr name d ct =
     \<lparr>arcname = name, data = d,
      compress_type = (case ct of None \<Rightarrow> ZIP_STORED | Some c \<Rightarrow> c)\<rparr>"

text \<open>The loop over \<open>enumerate(batch, start=idx_offset)\<close>: its state is
  \<open>manifest_items\<close>, \<open>spine_items\<close> and the members written so far.\<close>

fun chapter_loop ::
  "nat \<Rightarrow> chapter_rec list \<Rightarrow> string \<times> string \<times> member list \<Rightarrow> string \<times> string \<times> member list"
where
  "chapter_loop idx [] st = st"
| "chapter_loop idx (ch # rest) (manifest_items, spine_items, outzip) =
     chapter_loop (idx + 1) rest
       (manifest_items @ manifest_chapter_item idx ch,
        spine_items @ spine_itemref idx,
        outzip @ [writestr (file_name ch) (chapter_html ch) None])"

text \<open>The loop that adds one navigation point per chapter, counting in \<open>nav_index\<close>.\<close>

fun nav_loop :: "nat \<Rightarrow> chapter_rec list \<Rightarrow> string \<Rightarrow> string" where
  "nav_loop nav_index [] nav_points = nav_points"
| "nav_loop nav_index (ch # rest) nav_points =
     nav_loop (nav_index + 1) rest (nav_points @ nav_point nav_index ch)"




text \<open>The body of \<open>with zipfile.ZipFile(output_name, 'w') as outzip\<close>: the members in
  the order of the \<open>writestr\<close> calls.\<close>

definition write_members :: "cover \<Rightarrow> string \<Rightarrow> string \<Rightarrow> nat \<Rightarrow> chapter_rec list \<Rightarrow> member list" where
  "write_members cv base_name ptitle i batch =
     (let z1 = [writestr ''mimetype'' ''application/epub+zip'' (Some ZIP_STORED)];
          z2 = z1 @ [writestr ''META-INF/container.xml'' container_xml None];
          z3 = (if truthy (cover_image cv) \<and> truthy (cover_image_name cv)
                then z2 @ [writestr (fmt (cover_image_name cv)) (fmt (cover_image cv)) None]
                else z2);
          z4 = z3 @ [writestr ''styles.css'' css_content None];
          m0 = (if truthy (cover_image_name cv) \<and> truthy (cover_media_type cv)
                then manifest_cover_item cv else []);
          m1 = m0 @ manifest_css_item;
          (m2, spine_items, z5) = chapter_loop 1 batch (m1, [], z4);
          manifest_items = m2 @ manifest_ncx_item;
          z6 = z5 @ [writestr ''content.opf''
                       (content_opf (metadata cv base_name ptitle i) manifest_items spine_items)
                       None];
          n0 = (if truthy (cover_image_name cv) then nav_cover_point cv else []);
          nav_points = nav_loop 1 batch n0
      in z6 @ [writestr ''toc.ncx'' (toc_ncx base_name ptitle i nav_points) None])"

definition write_epub :: "config \<Rightarrow> cover \<Rightarrow> nat \<Rightarrow> chapter_rec list \<Rightarrow> epub_out" where
  "write_epub cfg cv i batch =
     \<lparr>out_path = output_name cfg i batch,
      out_members = write_members cv (get_base_name (cfg_epub cfg)) (part_title cfg i batch) i batch\<rparr>"

text \<open>The loop over \<open>enumerate(chapter_batches, start=1)\<close>.\<close>

fun write_all :: "config \<Rightarrow> cover \<Rightarrow> nat \<Rightarrow> chapter_rec list list \<Rightarrow> epub_out list" where
  "write_all cfg cv i [] = []"
| "write_all cfg cv i (batch # rest) = write_epub cfg cv i batch # write_all cfg cv (i + 1) rest"

subsection \<open>The run\<close>

text \<open>What a run leaves: the containers it wrote, in order, and the exception that
  ended it, if one did.\<close>

record run_result =
  written :: "epub_out list"
  raised :: "error option"

text \<open>Sections 4 and 5 of the script, from the chapters and the cover already read.\<close>

definition split_and_write :: "config \<Rightarrow> chapter_rec list \<Rightarrow> cover \<Rightarrow> run_result" where
  "split_and_write cfg chapters cv =
     (case chapter_batches cfg chapters of
        Inl e \<Rightarrow> \<lparr>written = [], raised = Some e\<rparr>
      | Inr batches \<Rightarrow> \<lparr>written = write_all cfg cv 1 batches, raised = None\<rparr>)"



subsection \<open>The title rule in the words of the specification\<close>







subsection \<open>Sample inputs\<close>

definition sample_chapter :: "string \<Rightarrow> chapter_rec" where
  "sample_chapter n =
     \<lparr>file_name = n @ ''.xhtml'', content = ''<p>'' @ n @ ''</p>'', title = n\<rparr>"

definition five_chapters :: "chapter_rec list" where
  "five_chapters = map sample_chapter [''a'', ''b'', ''c'', ''d'', ''e'']"





definition fixed_cfg :: "int \<Rightarrow> config" where
  "fixed_cfg n =
     \<lparr>cfg_epub = ''books/Saga.epub'', cfg_splitsize = n, cfg_outdir = None,
      cfg_title = None, cfg_singlerange = None\<rparr>"

definition range_cfg :: "int \<Rightarrow> int \<Rightarrow> config" where
  "range_cfg start stop =
     \<lparr>cfg_epub = ''books/Saga.epub'', cfg_splitsize = 100, cfg_outdir = None,
      cfg_title = None, cfg_singlerange = Some (start, stop)\<rparr>"


section \<open>Properties\<close>

subsection \<open>Slices and fixed-size windows\<close>

lemma py_slice_nonneg:
  "0 \<le> lo \<Longrightarrow> 0 \<le> hi \<Longrightarrow> py_slice xs lo hi = take (nat hi - nat lo) (drop (nat lo) xs)"
  by (auto simp: py_slice_def slice_bound_def Let_def min_def)

lemma range_len_pos:
  assumes "0 < n"
  shows "nat ((int L + n - 1) div n) = (L + nat n - 1) div nat n"
proof -
  obtain m where m: "n = int m" "0 < m" using assms by (metis zero_less_imp_eq_int)
  have "int L + int m - 1 = int (L + m - 1)" using m by auto
  then show ?thesis using m by (simp add: zdiv_int[symmetric] del: of_nat_add of_nat_diff)
qed

lemma chunks_pos:
  assumes "0 < n"
  shows "chunks lst n =
    Inr (map (\<lambda>k. take (nat n) (drop (k * nat n) lst)) [0 ..< (length lst + nat n - 1) div nat n])"
proof -
  have "py_slice lst (int k * n) (int k * n + n) = take (nat n) (drop (k * nat n) lst)" for k
  proof -
    have "nat (int k * n + n) - nat (int k * n) = nat n" using assms
      by (simp add: nat_add_distrib nat_mult_distrib)
    moreover have "nat (int k * n) = k * nat n" by (simp add: nat_mult_distrib)
    ultimately show ?thesis using assms by (simp add: py_slice_nonneg)
  qed
  then show ?thesis using assms
    by (simp add: chunks_def py_range_def range_len_pos comp_def)
qed



lemma concat_windows:
  "concat (map (\<lambda>k. take m (drop (k * m) xs)) [0 ..< c]) = take (c * m) xs"
proof (induction c)
  case 0 then show ?case by simp
next
  case (Suc c)
  have "take (c * m) xs @ take m (drop (c * m) xs) = take (c * m + m) xs"
    by (simp add: take_add)
  with Suc show ?case by (simp add: add.commute)
qed

lemma ceil_div_cover:
  assumes "0 < (m::nat)" shows "L \<le> ((L + m - 1) div m) * m"
proof -
  have "(L + m - 1) div m * m + (L + m - 1) mod m = L + m - 1" by simp
  moreover have "(L + m - 1) mod m < m" using assms by simp
  ultimately show ?thesis by linarith
qed

lemma window_start_inside:
  assumes "0 < (m::nat)" "k < (L + m - 1) div m" shows "k * m < L"
proof -
  have "Suc k * m \<le> ((L + m - 1) div m) * m" using assms by (simp add: Suc_leI del: mult_Suc)
  also have "\<dots> \<le> L + m - 1" by simp
  finally have "Suc k * m \<le> L + m - 1" .
  then show ?thesis using assms by simp
qed

lemma window_full:
  assumes "0 < (m::nat)" "Suc k < (L + m - 1) div m" shows "k * m + m \<le> L"
proof -
  have "Suc k * m < L" using assms by (rule window_start_inside)
  then show ?thesis by (simp add: add.commute)
qed

text \<open>
  C2. In fixed-size mode with a batch size of at least 1, the batches are the windows of
  that size over the chapter list, in order: batch number \<open>k\<close> (from 0) holds the chapters
  after the first \<open>k * size\<close>, every batch but the last has exactly \<open>size\<close> chapters, the
  last has between 1 and \<open>size\<close>, and the batches concatenated are the chapter list.
\<close>

theorem fixed_batches_windows:
  assumes "cfg_singlerange cfg = None" and "1 \<le> cfg_splitsize cfg"
  shows "\<exists>bs. chapter_batches cfg chapters = Inr bs
           \<and> concat bs = chapters
           \<and> length bs = (length chapters + nat (cfg_splitsize cfg) - 1) div nat (cfg_splitsize cfg)
           \<and> (\<forall>k < length bs.
                 bs ! k = take (nat (cfg_splitsize cfg)) (drop (k * nat (cfg_splitsize cfg)) chapters)
               \<and> (if Suc k < length bs then length (bs ! k) = nat (cfg_splitsize cfg)
                   else 1 \<le> length (bs ! k) \<and> length (bs ! k) \<le> nat (cfg_splitsize cfg)))"
proof -
  define m where "m = nat (cfg_splitsize cfg)"
  define c where "c = (length chapters + m - 1) div m"
  define bs where "bs = map (\<lambda>k. take m (drop (k * m) chapters)) [0 ..< c]"
  have m: "0 < m" using assms(2) by (simp add: m_def)
  have eq: "chapter_batches cfg chapters = Inr bs"
    using assms by (simp add: chapter_batches_def chunks_pos bs_def c_def m_def)
  have cat: "concat bs = chapters"
    using ceil_div_cover[OF m, of "length chapters"] by (simp add: bs_def concat_windows c_def)
  have len: "length bs = c" by (simp add: bs_def)
  have win: "bs ! k = take m (drop (k * m) chapters)" if "k < length bs" for k
    using that by (simp add: bs_def)
  have full: "length (bs ! k) = m" if "Suc k < length bs" for k
  proof -
    have "k * m + m \<le> length chapters" using that m by (simp add: len c_def window_full)
    then show ?thesis using that by (simp add: bs_def)
  qed
  have part: "1 \<le> length (bs ! k) \<and> length (bs ! k) \<le> m" if "k < length bs" for k
  proof -
    have "k * m < length chapters" using that m by (simp add: len c_def window_start_inside)
    then show ?thesis using that m by (simp add: bs_def)
  qed
  show ?thesis
    using eq cat len win full part unfolding c_def m_def by (intro exI[of _ bs]) auto
qed

text \<open>Five chapters cut by two: batches of 2, 2 and 1 chapters.\<close>

theorem fixed_batches_windows_witness:
  "cfg_singlerange (fixed_cfg 2) = None \<and> 1 \<le> cfg_splitsize (fixed_cfg 2) \<and>
   length five_chapters = 5 \<and>
   (\<exists>bs. chapter_batches (fixed_cfg 2) five_chapters = Inr bs \<and> concat bs = five_chapters \<and>
         map length bs = [2, 2, 1])"
proof -
  have h1: "cfg_singlerange (fixed_cfg 2) = None" by (simp add: fixed_cfg_def)
  have h2: "1 \<le> cfg_splitsize (fixed_cfg 2)" by (simp add: fixed_cfg_def)
  have l5: "length five_chapters = 5" by (simp add: five_chapters_def)
  have sz: "nat (cfg_splitsize (fixed_cfg 2)) = 2" by (simp add: fixed_cfg_def)
  from fixed_batches_windows[OF h1 h2, of five_chapters, unfolded sz l5]
  obtain bs where bs: "chapter_batches (fixed_cfg 2) five_chapters = Inr bs"
      "concat bs = five_chapters"
      "length bs = (5 + 2 - 1) div 2"
      "\<forall>k < length bs. bs ! k = take 2 (drop (k * 2) five_chapters) \<and>
          (if Suc k < length bs then length (bs ! k) = 2
           else 1 \<le> length (bs ! k) \<and> length (bs ! k) \<le> 2)"
    by blast
  have len3: "length bs = 3" using bs(3) by simp
  obtain x y z where xyz: "bs = [x, y, z]"
    using len3 by (auto simp: numeral_3_eq_3 length_Suc_conv)
  have w: "k < 3 \<Longrightarrow>
          (if Suc k < 3 then length (bs ! k) = 2
           else 1 \<le> length (bs ! k) \<and> length (bs ! k) \<le> 2)" for k
    using bs(4) unfolding len3 by blast
  have w2: "bs ! 2 = take 2 (drop (2 * 2) five_chapters)"
    using bs(4) unfolding len3 by simp
  have "length (bs ! 0) = 2" using w[of 0] by simp
  moreover have "length (bs ! 1) = 2" using w[of 1] by simp
  moreover have "length (bs ! 2) = 1" unfolding w2 using l5 by simp
  ultimately have ml: "map length bs = [2, 2, 1]" by (simp add: xyz)
  show ?thesis
    using h1 h2 l5 bs(1,2) ml by (intro conjI exI[of _ bs]) simp_all
qed

subsection \<open>The explicit range\<close>

lemma slice_positions:
  assumes "1 \<le> start" "start \<le> stop" "stop \<le> int (length xs)"
  shows "py_slice xs (start - 1) stop = map (\<lambda>p. xs ! (nat p - 1)) [start..stop]"
proof -
  have sl: "py_slice xs (start - 1) stop = take (nat stop - nat (start - 1)) (drop (nat (start - 1)) xs)"
    using assms by (simp add: py_slice_nonneg)
  have len: "length (take (nat stop - nat (start - 1)) (drop (nat (start - 1)) xs)) = nat (stop - start + 1)"
    using assms by auto
  have "take (nat stop - nat (start - 1)) (drop (nat (start - 1)) xs) ! k = xs ! (nat (start + int k) - 1)"
    if "k < nat (stop - start + 1)" for k
  proof -
    have "nat (start - 1) + k = nat (start + int k) - 1" using assms by auto
    then show ?thesis using that assms by simp
  qed
  then show ?thesis unfolding sl using len
    by (auto simp: list_eq_iff_nth_eq)
qed

lemma five_nth:
  "five_chapters ! Suc 0 = sample_chapter ''b''" "five_chapters ! 2 = sample_chapter ''c''"
  "five_chapters ! 3 = sample_chapter ''d''"
  by (simp_all add: five_chapters_def)

lemma upto_2_4: "[2..4::int] = [2, 3, 4]"
  by (simp add: upto.simps)

text \<open>
  C3. With an explicit range \<open>(start, stop)\<close> over \<open>L\<close> chapters, the script raises the
  invalid-range error, and writes nothing, exactly when \<open>start < 1\<close>, \<open>stop > L\<close> or
  \<open>start > stop\<close>. Otherwise there is exactly one batch, it holds the chapters at the
  1-based positions \<open>start\<close> to \<open>stop\<close> in order, and the positions declared for it are
  \<open>start\<close> and \<open>stop\<close> themselves.
\<close>

theorem single_range_batch:
  assumes "cfg_singlerange cfg = Some (start, stop)"
  shows "(start < 1 \<or> stop > int (length chapters) \<or> start > stop \<longrightarrow>
            chapter_batches cfg chapters = Inl (InvalidRange start stop (length chapters)) \<and>
            split_and_write cfg chapters cv =
              \<lparr>written = [], raised = Some (InvalidRange start stop (length chapters))\<rparr>)
       \<and> (\<not> (start < 1 \<or> stop > int (length chapters) \<or> start > stop) \<longrightarrow>
            chapter_batches cfg chapters = Inr [map (\<lambda>p. chapters ! (nat p - 1)) [start..stop]] \<and>
            raised (split_and_write cfg chapters cv) = None \<and>
            length (written (split_and_write cfg chapters cv)) = 1)
       \<and> start_chapter cfg i = start \<and> end_chapter cfg i batch = stop"
proof -
  have pos: "start_chapter cfg i = start \<and> end_chapter cfg i batch = stop"
    using assms by (simp add: start_chapter_def end_chapter_def)
  show ?thesis
  proof (cases "start < 1 \<or> stop > int (length chapters) \<or> start > stop")
    case True
    then have "chapter_batches cfg chapters = Inl (InvalidRange start stop (length chapters))"
      using assms by (simp add: chapter_batches_def)
    then show ?thesis using True pos by (simp add: split_and_write_def)
  next
    case False
    then have "py_slice chapters (start - 1) stop = map (\<lambda>p. chapters ! (nat p - 1)) [start..stop]"
      by (intro slice_positions) auto
    then have "chapter_batches cfg chapters = Inr [map (\<lambda>p. chapters ! (nat p - 1)) [start..stop]]"
      using assms False by (simp add: chapter_batches_def)
    then show ?thesis using False pos by (simp add: split_and_write_def)
  qed
qed

text \<open>Over five chapters, (2, 4) gives the chapters at positions 2 to 4; (0, 4) and
  (2, 10) raise.\<close>

theorem single_range_batch_witness:
  "cfg_singlerange (range_cfg 2 4) = Some (2, 4) \<and> length five_chapters = 5 \<and>
   chapter_batches (range_cfg 2 4) five_chapters =
     Inr [[sample_chapter ''b'', sample_chapter ''c'', sample_chapter ''d'']] \<and>
   start_chapter (range_cfg 2 4) 1 = 2 \<and>
   end_chapter (range_cfg 2 4) 1 [sample_chapter ''b'', sample_chapter ''c'', sample_chapter ''d''] = 4 \<and>
   chapter_batches (range_cfg 0 4) five_chapters = Inl (InvalidRange 0 4 5) \<and>
   chapter_batches (range_cfg 2 10) five_chapters = Inl (InvalidRange 2 10 5)"
proof -
  have l5: "length five_chapters = 5" by (simp add: five_chapters_def)
  have a: "cfg_singlerange (range_cfg s e) = Some (s, e)" for s e by (simp add: range_cfg_def)
  note t1 = single_range_batch[OF a[of 2 4], of five_chapters no_cover 1
              "[sample_chapter ''b'', sample_chapter ''c'', sample_chapter ''d'']"]
  note t2 = single_range_batch[OF a[of 0 4], of five_chapters no_cover 1 "[]"]
  note t3 = single_range_batch[OF a[of 2 10], of five_chapters no_cover 1 "[]"]
  show ?thesis using t1 t2 t3 by (simp add: l5 a upto_2_4 five_nth)
qed


subsection \<open>The batch size and the empty chapter list\<close>












subsection \<open>Chapter titles\<close>









subsection \<open>The loops of the writer in closed form\<close>


















subsection \<open>Identifiers and references of the chapters\<close>



subsection \<open>The cover search\<close>










lemma cover_examples:
  "is_cover_name ''img/Cover.PNG''"
  "base_file ''img/Cover.PNG'' = ''Cover.PNG''"
  "media_type_of ''Cover.PNG'' = None"
  "is_cover_name ''covers/art.jpg''"
  "\<not> contains (lower (base_file ''covers/art.jpg'')) ''cover''"
  by code_simp+










text \<open>
  C4, at the input of the specification's own example. The search takes the first member
  whose lower-cased name contains \<open>cover\<close> and ends in \<open>.jpg\<close>, \<open>.jpeg\<close> or \<open>.png\<close>, but it
  reads the media type off the name as it is spelled: for \<open>img/Cover.PNG\<close> the cover is
  chosen and its media type stays \<open>None\<close>.
\<close>

theorem cover_upper_case_extension:
  "locate_cover \<lparr>namelist = [''img/Cover.PNG'', ''img/other-cover.jpg''], read = r\<rparr> =
     \<lparr>cover_image = Some (r ''img/Cover.PNG''), cover_image_name = Some ''Cover.PNG'',
      cover_media_type = None\<rparr>"
  by (simp add: locate_cover_def cover_examples)




subsection \<open>The members of a container and the names that refer to them\<close>

















subsection \<open>Output paths and display titles\<close>















end
